theory Spec2Isabelle
  imports Complex_Main "HOL-Library.Word" "HOL-Library.AList"
begin

unbundle bit_operations_syntax

section \<open>Parameter block generation of iamf-tools: data model\<close>

text \<open>
  The development embeds \<^verbatim>\<open>iamf/cli/proto_to_obu/parameter_block_generator.cc\<close>.
  Every \<^verbatim>\<open>absl::Status\<close> that is not OK is a value of \<open>error\<close>; a function that
  can fail returns \<open>error + 'a\<close> with \<open>Inl\<close> for the failure.  \<open>InvalidArgument\<close> is
  \<^verbatim>\<open>absl::InvalidArgumentError\<close>; \<open>NumericOverflow\<close> is the failure of the
  narrowing casts.  Two outcomes are not a returned status: \<open>Aborted\<close> stands for
  \<^verbatim>\<open>flat_hash_map::at\<close> on a missing key, which does not return, and
  \<open>Undefined\<close> for a step whose behaviour C++ leaves undefined (an index out of
  range, a conversion out of range).
\<close>

datatype error = InvalidArgument | NumericOverflow | Aborted | Undefined

type_synonym DecodedUleb128 = "32 word"

text \<open>
  Modelled from the spec: the enumeration \<^verbatim>\<open>ChannelLabel::Label\<close> is declared in
  \<^verbatim>\<open>channel_label.h\<close>.  The constructors are the labels the generator names and the
  original channels the data model lists.
\<close>

datatype Label =
    kMono | kL2 | kR2 | kCentre | kLFE | kL3 | kR3 | kLs5 | kRs5 | kLtf2 | kRtf2
  | kL7 | kR7 | kLrs7 | kRrs7 | kLtb4 | kRtb4
  | kDemixedL7 | kDemixedL5 | kDemixedL3
  | kDemixedR7 | kDemixedR5 | kDemixedR3 | kDemixedR2
  | kDemixedLs5 | kDemixedRs5 | kDemixedLtf2 | kDemixedRtf2
  | kDemixedLrs7 | kDemixedRrs7 | kDemixedLtb4 | kDemixedRtb4

text \<open>
  Modelled from the spec: \<^verbatim>\<open>ChannelNumbers\<close> (three \<^verbatim>\<open>int\<close> counts) is
  declared with the audio element.
\<close>

record ChannelNumbers =
  surround :: int
  lfe :: int
  height :: int

text \<open>
  A C++ \<^verbatim>\<open>int\<close> holds a value in the 32-bit signed range.  Signed overflow is
  undefined in C++; the compiled increment wraps around, which \<open>wrap_int32\<close> writes out.
\<close>

definition int32 :: "int \<Rightarrow> bool" where
  "int32 x = (- 2147483648 \<le> x \<and> x \<le> 2147483647)"

definition wrap_int32 :: "int \<Rightarrow> int" where
  "wrap_int32 x = (x + 2147483648) mod 4294967296 - 2147483648"

subsection \<open>Double precision values\<close>

text \<open>
  A finite \<^verbatim>\<open>double\<close> is \<open>Double m e\<close>, the number \<open>m * 2 ^ e\<close>.  A product is
  rounded to 53 significant bits, to nearest and ties to even, as IEEE 754 binary64 does
  in the default rounding mode.  Overflow to infinity and results below the subnormal
  exponent cannot arise from a gain of magnitude at most 1 times 255.
\<close>

datatype double = Double (mant: int) (expo: int)


function excess_bits :: "int \<Rightarrow> nat" where
  "excess_bits n = (if n < 2 ^ 53 then 0 else Suc (excess_bits (n div 2)))"
  by pat_completeness auto
termination
  by (relation "measure (\<lambda>n. nat n)") auto

declare excess_bits.simps [simp del]

definition round_to_even :: "int \<Rightarrow> nat \<Rightarrow> int" where
  "round_to_even n k =
     (let q = n div 2 ^ k; r = n mod 2 ^ k
      in if 2 * r < 2 ^ k then q
         else if 2 ^ k < 2 * r then q + 1
         else if even q then q else q + 1)"

definition round53 :: "double \<Rightarrow> double" where
  "round53 d =
     (let n = \<bar>mant d\<bar>; k = excess_bits n
      in Double (sgn (mant d) * round_to_even n k) (expo d + int k))"

definition dmul :: "double \<Rightarrow> double \<Rightarrow> double" where
  "dmul a b = round53 (Double (mant a * mant b) (expo a + expo b))"

text \<open>
  \<^verbatim>\<open>static_cast<uint8_t>\<close> of a double discards the fraction (truncation towards
  zero).  The cast is defined in C++ only when the truncated value is within 0..255.
\<close>

definition dtrunc :: "double \<Rightarrow> int" where
  "dtrunc d = sgn (mant d) *
     (if 0 \<le> expo d then \<bar>mant d\<bar> * 2 ^ nat (expo d) else \<bar>mant d\<bar> div 2 ^ nat (- expo d))"

definition uint8_range :: "double \<Rightarrow> bool" where
  "uint8_range d = (0 \<le> dtrunc d \<and> dtrunc d \<le> 255)"

definition static_cast_uint8 :: "double \<Rightarrow> 8 word" where
  "static_cast_uint8 d = word_of_int (dtrunc d)"

section \<open>Recon gain engine\<close>

subsection \<open>FindDemixedChannels\<close>

text \<open>
  The \<^verbatim>\<open>for\<close> loop over \<^verbatim>\<open>surround\<close>, from the value \<open>s\<close> on.  The
  \<^verbatim>\<open>switch\<close> has the cases 2, 3, 5 and 7 and a default that fails above 7.  The
  loop increments \<open>s\<close> only where \<open>s\<close> is at most 7, so \<^verbatim>\<open>surround++\<close> cannot
  overflow; the initial \<^verbatim>\<open>accumulated_channels.surround + 1\<close> can, and wraps.
\<close>

function FindDemixedChannels_surround ::
  "ChannelNumbers \<Rightarrow> ChannelNumbers \<Rightarrow> int \<Rightarrow> Label list \<Rightarrow> error + Label list" where
  "FindDemixedChannels_surround accumulated_channels layer_channels s demixed_channel_labels =
     (if s \<le> surround layer_channels then
        (if s = 2 then
           FindDemixedChannels_surround accumulated_channels layer_channels (s + 1)
             (if surround accumulated_channels = 1
              then demixed_channel_labels @ [kDemixedR2] else demixed_channel_labels)
         else if s = 3 then
           FindDemixedChannels_surround accumulated_channels layer_channels (s + 1)
             (demixed_channel_labels @ [kDemixedL3, kDemixedR3])
         else if s = 5 then
           FindDemixedChannels_surround accumulated_channels layer_channels (s + 1)
             (demixed_channel_labels @ [kDemixedLs5, kDemixedRs5])
         else if s = 7 then
           FindDemixedChannels_surround accumulated_channels layer_channels (s + 1)
             (demixed_channel_labels @ [kDemixedL7, kDemixedR7, kDemixedLrs7, kDemixedRrs7])
         else if s > 7 then Inl InvalidArgument
         else FindDemixedChannels_surround accumulated_channels layer_channels (s + 1)
                demixed_channel_labels)
      else Inr demixed_channel_labels)"
  by pat_completeness auto
termination
  by (relation "measure (\<lambda>(a, l, s, ls). nat (surround l + 1 - s))") auto

declare FindDemixedChannels_surround.simps [simp del]

definition FindDemixedChannels ::
  "ChannelNumbers \<Rightarrow> ChannelNumbers \<Rightarrow> Label list \<Rightarrow> error + Label list" where
  "FindDemixedChannels accumulated_channels layer_channels demixed_channel_labels =
     (case FindDemixedChannels_surround accumulated_channels layer_channels
             (wrap_int32 (surround accumulated_channels + 1)) demixed_channel_labels of
        Inl e \<Rightarrow> Inl e
      | Inr labels \<Rightarrow>
          Inr (if height accumulated_channels = 2 then
                 (if height layer_channels = 4 then labels @ [kDemixedLtb4, kDemixedRtb4]
                  else if height layer_channels = 2 \<and> surround accumulated_channels = 3
                          \<and> surround layer_channels > 3
                  then labels @ [kDemixedLtf2, kDemixedRtf2]
                  else labels)
               else labels))"

text \<open>
  The label list of section 4.7 of the specification, written from its words: the
  surround transition 1 to 2, the crossings of 3, 5 and 7, failure when \<open>surround\<close>
  is above 7, and the two height rules, applied in the order listed.  A surround count
  \<open>n\<close> is crossed when the accumulated count is below \<open>n\<close> and the layer's count
  reaches it.
\<close>

definition crosses :: "ChannelNumbers \<Rightarrow> ChannelNumbers \<Rightarrow> int \<Rightarrow> bool" where
  "crosses acc layer n = (surround acc < n \<and> n \<le> surround layer)"

definition spec_demixed_labels :: "ChannelNumbers \<Rightarrow> ChannelNumbers \<Rightarrow> error + Label list" where
  "spec_demixed_labels acc layer =
     (if 7 < surround layer then Inl InvalidArgument
      else Inr (
        (if surround acc = 1 \<and> 2 \<le> surround layer then [kDemixedR2] else []) @
        (if crosses acc layer 3 then [kDemixedL3, kDemixedR3] else []) @
        (if crosses acc layer 5 then [kDemixedLs5, kDemixedRs5] else []) @
        (if crosses acc layer 7
         then [kDemixedL7, kDemixedR7, kDemixedLrs7, kDemixedRrs7] else []) @
        (if height acc = 2 \<and> height layer = 4 then [kDemixedLtb4, kDemixedRtb4]
         else if height acc = 2 \<and> height layer = 2 \<and> surround acc = 3 \<and> 3 < surround layer
         then [kDemixedLtf2, kDemixedRtf2]
         else [])))"

text \<open>
  The label list the code produces.  It differs from \<open>spec_demixed_labels\<close> in the
  failure alone: the loop visits only the counts above the accumulated one, so a surround
  count above 7 fails only when it is also above the accumulated count.
\<close>

definition demixed_label_list :: "ChannelNumbers \<Rightarrow> ChannelNumbers \<Rightarrow> error + Label list" where
  "demixed_label_list acc layer =
     (if surround acc < surround layer \<and> 7 < surround layer then Inl InvalidArgument
      else Inr (
        (if surround acc = 1 \<and> 2 \<le> surround layer then [kDemixedR2] else []) @
        (if crosses acc layer 3 then [kDemixedL3, kDemixedR3] else []) @
        (if crosses acc layer 5 then [kDemixedLs5, kDemixedRs5] else []) @
        (if crosses acc layer 7
         then [kDemixedL7, kDemixedR7, kDemixedLrs7, kDemixedRrs7] else []) @
        (if height acc = 2 \<and> height layer = 4 then [kDemixedLtb4, kDemixedRtb4]
         else if height acc = 2 \<and> height layer = 2 \<and> surround acc = 3 \<and> 3 < surround layer
         then [kDemixedLtf2, kDemixedRtf2]
         else [])))"

subsection \<open>ConvertReconGainsAndFlags\<close>

text \<open>
  The \<^verbatim>\<open>switch\<close> over the label: \<open>bit_position\<close> starts at 0 and the default
  branch only logs, so an unrecognised label keeps position 0.
\<close>

definition bit_position :: "Label \<Rightarrow> nat" where
  "bit_position label =
     (case label of
        kDemixedL7 \<Rightarrow> 0 | kDemixedL5 \<Rightarrow> 0 | kDemixedL3 \<Rightarrow> 0
      | kDemixedR7 \<Rightarrow> 2 | kDemixedR5 \<Rightarrow> 2 | kDemixedR3 \<Rightarrow> 2 | kDemixedR2 \<Rightarrow> 2
      | kDemixedLs5 \<Rightarrow> 3
      | kDemixedRs5 \<Rightarrow> 4
      | kDemixedLtf2 \<Rightarrow> 5
      | kDemixedRtf2 \<Rightarrow> 6
      | kDemixedLrs7 \<Rightarrow> 7
      | kDemixedRrs7 \<Rightarrow> 8
      | kDemixedLtb4 \<Rightarrow> 9
      | kDemixedRtb4 \<Rightarrow> 10
      | _ \<Rightarrow> 0)"

text \<open>The labels that have a case of their own in the \<^verbatim>\<open>switch\<close>.\<close>

definition recognised :: "Label \<Rightarrow> bool" where
  "recognised label =
     (label \<in> set [kDemixedL7, kDemixedL5, kDemixedL3, kDemixedR7, kDemixedR5, kDemixedR3,
                    kDemixedR2, kDemixedLs5, kDemixedRs5, kDemixedLtf2, kDemixedRtf2,
                    kDemixedLrs7, kDemixedRrs7, kDemixedLtb4, kDemixedRtb4])"

text \<open>\<^verbatim>\<open>std::vector::resize(n, v)\<close>: existing elements are kept.\<close>

definition resize :: "nat \<Rightarrow> 'a \<Rightarrow> 'a list \<Rightarrow> 'a list" where
  "resize n v xs = take n xs @ replicate (n - length xs) v"

text \<open>
  The state of the loop is the gain vector, the flag and the labels that were
  error-logged.  One iteration handles one entry of the map.
\<close>

definition ConvertReconGainsAndFlags_step ::
  "8 word list \<times> DecodedUleb128 \<times> Label list \<Rightarrow> Label \<times> double
     \<Rightarrow> 8 word list \<times> DecodedUleb128 \<times> Label list" where
  "ConvertReconGainsAndFlags_step st entry =
     (case st of (computed_recon_gains, computed_recon_gain_flag, logged) \<Rightarrow>
      case entry of (label, recon_gain) \<Rightarrow>
        (computed_recon_gains[bit_position label :=
            static_cast_uint8 (dmul recon_gain (Double 255 0))],
         computed_recon_gain_flag OR push_bit (bit_position label) 1,
         if recognised label then logged else logged @ [label]))"

text \<open>
  \<open>label_to_recon_gain\<close> is the map in the order the loop visits it (a
  \<^verbatim>\<open>flat_hash_map\<close> fixes no order); its labels are distinct.  The function has
  no failing return: it returns OK, unless the conversion of some gain to
  \<^verbatim>\<open>uint8_t\<close> is out of range, which is undefined.
\<close>

definition ConvertReconGainsAndFlags ::
  "(Label \<times> double) list \<Rightarrow> 8 word list
     \<Rightarrow> error + (8 word list \<times> DecodedUleb128 \<times> Label list)" where
  "ConvertReconGainsAndFlags label_to_recon_gain computed_recon_gains =
     (if list_all (\<lambda>entry. uint8_range (dmul (snd entry) (Double 255 0))) label_to_recon_gain
      then Inr (foldl ConvertReconGainsAndFlags_step (resize 12 0 computed_recon_gains, 0, [])
                  label_to_recon_gain)
      else Inl Undefined)"

subsection \<open>ComputeReconGains\<close>

text \<open>
  \<^verbatim>\<open>ReconGainGenerator::ComputeReconGain\<close> is an external collaborator: it is the
  parameter \<open>crg\<close>, from a label and the original and decoded samples to a gain or
  an error.  \<^verbatim>\<open>label_to_recon_gain[label]\<close> inserts the label and the call fills
  its gain.  The order in which the \<^verbatim>\<open>flat_hash_map\<close> is later visited is not
  fixed by the source: it is the parameter \<open>visit\<close>, which rearranges the entries.
\<close>

fun compute_gains ::
  "(Label \<Rightarrow> 's \<Rightarrow> 's \<Rightarrow> error + double) \<Rightarrow> Label list \<Rightarrow> 's \<Rightarrow> 's
     \<Rightarrow> (Label \<times> double) list \<Rightarrow> error + (Label \<times> double) list" where
  "compute_gains crg [] labeled_samples label_to_decoded_samples m = Inr m"
| "compute_gains crg (label # ls) labeled_samples label_to_decoded_samples m =
     (case crg label labeled_samples label_to_decoded_samples of
        Inl e \<Rightarrow> Inl e
      | Inr g \<Rightarrow>
          compute_gains crg ls labeled_samples label_to_decoded_samples
            (AList.update label g m))"

definition label_to_recon_gain_of ::
  "(Label \<Rightarrow> 's \<Rightarrow> 's \<Rightarrow> error + double) \<Rightarrow> nat \<Rightarrow> ChannelNumbers \<Rightarrow> ChannelNumbers
     \<Rightarrow> 's \<Rightarrow> 's \<Rightarrow> error + (Label \<times> double) list" where
  "label_to_recon_gain_of crg layer_index layer_channels accumulated_channels
       labeled_samples label_to_decoded_samples =
     (if 0 < layer_index then
        (case FindDemixedChannels accumulated_channels layer_channels [] of
           Inl e \<Rightarrow> Inl e
         | Inr demixed_channel_labels \<Rightarrow>
             compute_gains crg demixed_channel_labels labeled_samples
               label_to_decoded_samples [])
      else Inr [])"

definition ComputeReconGains ::
  "(Label \<Rightarrow> 's \<Rightarrow> 's \<Rightarrow> error + double)
     \<Rightarrow> ((Label \<times> double) list \<Rightarrow> (Label \<times> double) list)
     \<Rightarrow> nat \<Rightarrow> ChannelNumbers \<Rightarrow> ChannelNumbers
     \<Rightarrow> 's \<Rightarrow> 's \<Rightarrow> bool list \<Rightarrow> 8 word list
     \<Rightarrow> error + (8 word list \<times> DecodedUleb128 \<times> Label list)" where
  "ComputeReconGains crg visit layer_index layer_channels accumulated_channels
       labeled_samples label_to_decoded_samples recon_gain_is_present_flags
       computed_recon_gains =
     (case label_to_recon_gain_of crg layer_index layer_channels accumulated_channels
             labeled_samples label_to_decoded_samples of
        Inl e \<Rightarrow> Inl e
      | Inr label_to_recon_gain \<Rightarrow>
          if length recon_gain_is_present_flags \<le> layer_index then Inl Undefined
          else if recon_gain_is_present_flags ! layer_index \<noteq> (label_to_recon_gain \<noteq> [])
          then Inl InvalidArgument
          else ConvertReconGainsAndFlags (visit label_to_recon_gain) computed_recon_gains)"

text \<open>
  The demixed channels of a layer, as \<open>ComputeReconGains\<close> finds them: none for the
  first layer, and the labels of \<open>FindDemixedChannels\<close> for a later one.
\<close>

definition demixed_channels_of_layer ::
  "nat \<Rightarrow> ChannelNumbers \<Rightarrow> ChannelNumbers \<Rightarrow> Label list" where
  "demixed_channels_of_layer layer_index layer_channels accumulated_channels =
     (if 0 < layer_index then
        (case FindDemixedChannels accumulated_channels layer_channels [] of
           Inl e \<Rightarrow> [] | Inr labels \<Rightarrow> labels)
      else [])"

section \<open>Mix gain subblock builder\<close>

text \<open>
  Modelled from the spec: the proto enum \<^verbatim>\<open>AnimationType\<close> is declared outside the
  sources; \<open>ANIMATE_INVALID\<close> stands for every value that is not one of the three
  animations.
\<close>

datatype AnimationType = ANIMATE_INVALID | ANIMATE_STEP | ANIMATE_LINEAR | ANIMATE_BEZIER

text \<open>
  The proto message \<^verbatim>\<open>MixGainParameterData\<close>.  A proto accessor returns the default
  message when a field is unset, so every animation is readable: the field
  \<open>step_start_point_value\<close> is \<^verbatim>\<open>param_data().step().start_point_value()\<close>, and
  so on.  The point values are \<^verbatim>\<open>int32\<close> (read with \<open>sint\<close>), the relative time
  is \<^verbatim>\<open>uint32\<close>.
\<close>

record MixGainParameterData_proto =
  animation_type :: AnimationType
  step_start_point_value :: "32 word"
  linear_start_point_value :: "32 word"
  linear_end_point_value :: "32 word"
  bezier_start_point_value :: "32 word"
  bezier_end_point_value :: "32 word"
  bezier_control_point_value :: "32 word"
  bezier_control_point_relative_time :: "32 word"

text \<open>
  The OBU side: \<^verbatim>\<open>AnimationStepInt16\<close>, \<^verbatim>\<open>AnimationLinearInt16\<close> and
  \<^verbatim>\<open>AnimationBezierInt16\<close>, with their fields in the order of the source, as the
  alternatives of \<^verbatim>\<open>param_data\<close>.
\<close>

datatype AnimationInt16 =
    AnimationStepInt16 "16 word"
  | AnimationLinearInt16 "16 word" "16 word"
  | AnimationBezierInt16 "16 word" "16 word" "16 word" "8 word"

datatype ObuAnimationType = kAnimateStep | kAnimateLinear | kAnimateBezier

record MixGainParameterData =
  obu_animation_type :: ObuAnimationType
  param_data :: AnimationInt16

text \<open>
  Modelled from the spec: \<^verbatim>\<open>Int32ToInt16\<close> and \<^verbatim>\<open>Uint32ToUint8\<close> are declared
  in \<^verbatim>\<open>obu_util.h\<close>.  Section 4.5: a lossless narrowing cast, failing on overflow;
  section 7 names the failure NumericOverflow.
\<close>

definition Int32ToInt16 :: "32 word \<Rightarrow> error + 16 word" where
  "Int32ToInt16 input =
     (if - 32768 \<le> sint input \<and> sint input \<le> 32767 then Inr (word_of_int (sint input))
      else Inl NumericOverflow)"

definition Uint32ToUint8 :: "32 word \<Rightarrow> error + 8 word" where
  "Uint32ToUint8 input =
     (if uint input \<le> 255 then Inr (word_of_int (uint input)) else Inl NumericOverflow)"

definition GenerateMixGainSubblock ::
  "MixGainParameterData_proto \<Rightarrow> error + MixGainParameterData" where
  "GenerateMixGainSubblock metadata_mix_gain_parameter_data =
     (case animation_type metadata_mix_gain_parameter_data of
        ANIMATE_STEP \<Rightarrow>
          (case Int32ToInt16 (step_start_point_value metadata_mix_gain_parameter_data) of
             Inl e \<Rightarrow> Inl e
           | Inr start_point \<Rightarrow>
               Inr \<lparr>obu_animation_type = kAnimateStep,
                    param_data = AnimationStepInt16 start_point\<rparr>)
      | ANIMATE_LINEAR \<Rightarrow>
          (case Int32ToInt16 (linear_start_point_value metadata_mix_gain_parameter_data) of
             Inl e \<Rightarrow> Inl e
           | Inr start_point \<Rightarrow>
          (case Int32ToInt16 (linear_end_point_value metadata_mix_gain_parameter_data) of
             Inl e \<Rightarrow> Inl e
           | Inr end_point \<Rightarrow>
               Inr \<lparr>obu_animation_type = kAnimateLinear,
                    param_data = AnimationLinearInt16 start_point end_point\<rparr>))
      | ANIMATE_BEZIER \<Rightarrow>
          (case Int32ToInt16 (bezier_start_point_value metadata_mix_gain_parameter_data) of
             Inl e \<Rightarrow> Inl e
           | Inr start_point \<Rightarrow>
          (case Int32ToInt16 (bezier_end_point_value metadata_mix_gain_parameter_data) of
             Inl e \<Rightarrow> Inl e
           | Inr end_point \<Rightarrow>
          (case Int32ToInt16 (bezier_control_point_value metadata_mix_gain_parameter_data) of
             Inl e \<Rightarrow> Inl e
           | Inr control_point \<Rightarrow>
          (case Uint32ToUint8
                  (bezier_control_point_relative_time metadata_mix_gain_parameter_data) of
             Inl e \<Rightarrow> Inl e
           | Inr relative_time \<Rightarrow>
               Inr \<lparr>obu_animation_type = kAnimateBezier,
                    param_data =
                      AnimationBezierInt16 start_point end_point control_point
                        relative_time\<rparr>))))
      | ANIMATE_INVALID \<Rightarrow> Inl InvalidArgument)"

text \<open>
  The values an animation of the metadata uses, and the values of an OBU animation, for
  stating that the cast is lossless.
\<close>

definition animation_values :: "MixGainParameterData_proto \<Rightarrow> int list" where
  "animation_values md =
     (case animation_type md of
        ANIMATE_STEP \<Rightarrow> [sint (step_start_point_value md)]
      | ANIMATE_LINEAR \<Rightarrow>
          [sint (linear_start_point_value md), sint (linear_end_point_value md)]
      | ANIMATE_BEZIER \<Rightarrow>
          [sint (bezier_start_point_value md), sint (bezier_end_point_value md),
           sint (bezier_control_point_value md)]
      | ANIMATE_INVALID \<Rightarrow> [])"

definition relative_times :: "MixGainParameterData_proto \<Rightarrow> int list" where
  "relative_times md =
     (case animation_type md of
        ANIMATE_BEZIER \<Rightarrow> [uint (bezier_control_point_relative_time md)]
      | _ \<Rightarrow> [])"

definition obu_animation_values :: "AnimationInt16 \<Rightarrow> int list" where
  "obu_animation_values a =
     (case a of
        AnimationStepInt16 s \<Rightarrow> [sint s]
      | AnimationLinearInt16 s e \<Rightarrow> [sint s, sint e]
      | AnimationBezierInt16 s e c t \<Rightarrow> [sint s, sint e, sint c])"

definition obu_relative_times :: "AnimationInt16 \<Rightarrow> int list" where
  "obu_relative_times a =
     (case a of AnimationBezierInt16 s e c t \<Rightarrow> [uint t] | _ \<Rightarrow> [])"

definition fits_int16 :: "int \<Rightarrow> bool" where
  "fits_int16 x = (- 32768 \<le> x \<and> x \<le> 32767)"

definition fits_uint8 :: "int \<Rightarrow> bool" where
  "fits_uint8 x = (0 \<le> x \<and> x \<le> 255)"

section \<open>Recon gain subblock builder\<close>

text \<open>
  Modelled from the spec: \<^verbatim>\<open>ReconGainElement\<close> (section 3: a 12-bit flag and a
  12-byte vector) is declared outside the sources.  A value-initialised element has the
  flag 0 and twelve zero bytes.
\<close>

record ReconGainElement =
  recon_gain_flag :: DecodedUleb128
  recon_gain :: "8 word list"

definition empty_ReconGainElement :: ReconGainElement where
  "empty_ReconGainElement = \<lparr>recon_gain_flag = 0, recon_gain = replicate 12 0\<rparr>"

text \<open>
  The first loop over \<^verbatim>\<open>recon_gain()\<close> of one layer of the metadata, a proto map
  from bit position to gain (both \<^verbatim>\<open>uint32\<close>), given as its entries in the order
  they are visited.  Writing \<^verbatim>\<open>user_recon_gains[bit_position]\<close> with a position of
  12 or more is out of range.  The gain is narrowed to \<^verbatim>\<open>uint8_t\<close> by assignment.
\<close>

definition user_recon_gain_step ::
  "8 word list \<times> DecodedUleb128 \<Rightarrow> 32 word \<times> 32 word \<Rightarrow> 8 word list \<times> DecodedUleb128" where
  "user_recon_gain_step st entry =
     ((fst st)[unat (fst entry) := ucast (snd entry)],
      snd st OR push_bit (unat (fst entry)) 1)"

definition user_recon_gain_layer ::
  "(32 word \<times> 32 word) list \<Rightarrow> error + (8 word list \<times> DecodedUleb128)" where
  "user_recon_gain_layer entries =
     (if list_all (\<lambda>entry. unat (fst entry) < 12) entries then
        Inr (foldl user_recon_gain_step (replicate 12 0, 0) entries)
      else Inl Undefined)"

text \<open>The second loop: the user's gains are written to the output element.\<close>

definition write_user_recon_gains ::
  "(32 word \<times> 32 word) list \<Rightarrow> 8 word list \<Rightarrow> 8 word list \<Rightarrow> 8 word list" where
  "write_user_recon_gains entries user_recon_gains output_recon_gain =
     foldl (\<lambda>out entry. out[unat (fst entry) := user_recon_gains ! unat (fst entry)])
       output_recon_gain entries"

text \<open>
  One iteration of the loop over the layers: the output element of the layer and the
  accumulated channel numbers after it.  The frame maps are maps from the audio element
  id to the labelled samples.
\<close>

definition GenerateReconGainSubblock_layer ::
  "(Label \<Rightarrow> 's \<Rightarrow> 's \<Rightarrow> error + double)
     \<Rightarrow> ((Label \<times> double) list \<Rightarrow> (Label \<times> double) list)
     \<Rightarrow> bool \<Rightarrow> (DecodedUleb128 \<rightharpoonup> 's) \<Rightarrow> (DecodedUleb128 \<rightharpoonup> 's)
     \<Rightarrow> bool list \<Rightarrow> ChannelNumbers list \<Rightarrow> (32 word \<times> 32 word) list list
     \<Rightarrow> DecodedUleb128 \<Rightarrow> nat \<Rightarrow> ChannelNumbers
     \<Rightarrow> error + (ReconGainElement \<times> ChannelNumbers)" where
  "GenerateReconGainSubblock_layer crg visit override_computed_recon_gains
       id_to_labeled_frame id_to_labeled_decoded_frame recon_gain_is_present_flags
       channel_numbers user_recon_gains_layers audio_element layer_index
       accumulated_channels =
     (if length user_recon_gains_layers \<le> layer_index then Inl Undefined
      else
        case user_recon_gain_layer (user_recon_gains_layers ! layer_index) of
          Inl e \<Rightarrow> Inl e
        | Inr (user_recon_gains, user_recon_gain_flag) \<Rightarrow>
            let output_recon_gain_element =
                  \<lparr>recon_gain_flag = user_recon_gain_flag,
                   recon_gain =
                     write_user_recon_gains (user_recon_gains_layers ! layer_index)
                       user_recon_gains (recon_gain empty_ReconGainElement)\<rparr>
            in
            if override_computed_recon_gains
            then Inr (output_recon_gain_element, accumulated_channels)
            else if length channel_numbers \<le> layer_index then Inl Undefined
            else
              case id_to_labeled_frame audio_element of
                None \<Rightarrow> Inl InvalidArgument
              | Some labeled_frame \<Rightarrow>
              case id_to_labeled_decoded_frame audio_element of
                None \<Rightarrow> Inl InvalidArgument
              | Some labeled_decoded_frame \<Rightarrow>
              case ComputeReconGains crg visit layer_index (channel_numbers ! layer_index)
                     accumulated_channels labeled_frame labeled_decoded_frame
                     recon_gain_is_present_flags [] of
                Inl e \<Rightarrow> Inl e
              | Inr (computed_recon_gains, computed_recon_gain_flag, logged) \<Rightarrow>
                  if \<not> recon_gain_is_present_flags ! layer_index
                  then Inr (output_recon_gain_element, channel_numbers ! layer_index)
                  else if computed_recon_gain_flag \<noteq> user_recon_gain_flag
                  then Inl InvalidArgument
                  else if list_ex (\<lambda>i. user_recon_gains ! i \<noteq> computed_recon_gains ! i)
                            [0..<12]
                  then Inl InvalidArgument
                  else Inr (output_recon_gain_element, channel_numbers ! layer_index))"

fun GenerateReconGainSubblock_layers ::
  "(nat \<Rightarrow> ChannelNumbers \<Rightarrow> error + (ReconGainElement \<times> ChannelNumbers))
     \<Rightarrow> nat list \<Rightarrow> ChannelNumbers \<Rightarrow> ReconGainElement list
     \<Rightarrow> error + ReconGainElement list" where
  "GenerateReconGainSubblock_layers layer [] accumulated_channels elements = Inr elements"
| "GenerateReconGainSubblock_layers layer (layer_index # rest) accumulated_channels elements =
     (case layer layer_index accumulated_channels of
        Inl e \<Rightarrow> Inl e
      | Inr (element, accumulated_channels') \<Rightarrow>
          GenerateReconGainSubblock_layers layer rest accumulated_channels'
            (elements[layer_index := element]))"

definition GenerateReconGainSubblock ::
  "(Label \<Rightarrow> 's \<Rightarrow> 's \<Rightarrow> error + double)
     \<Rightarrow> ((Label \<times> double) list \<Rightarrow> (Label \<times> double) list)
     \<Rightarrow> bool \<Rightarrow> (DecodedUleb128 \<rightharpoonup> 's) \<Rightarrow> (DecodedUleb128 \<rightharpoonup> 's)
     \<Rightarrow> nat \<Rightarrow> bool list \<Rightarrow> ChannelNumbers list \<Rightarrow> (32 word \<times> 32 word) list list
     \<Rightarrow> DecodedUleb128 \<Rightarrow> error + ReconGainElement list" where
  "GenerateReconGainSubblock crg visit override_computed_recon_gains
       id_to_labeled_frame id_to_labeled_decoded_frame num_layers
       recon_gain_is_present_flags channel_numbers user_recon_gains_layers audio_element =
     (if 1 < num_layers \<and> num_layers \<noteq> length user_recon_gains_layers
      then Inl InvalidArgument
      else
        GenerateReconGainSubblock_layers
          (GenerateReconGainSubblock_layer crg visit override_computed_recon_gains
             id_to_labeled_frame id_to_labeled_decoded_frame recon_gain_is_present_flags
             channel_numbers user_recon_gains_layers audio_element)
          [0..<num_layers] \<lparr>surround = 0, lfe = 0, height = 0\<rparr>
          (replicate num_layers empty_ReconGainElement))"



section \<open>Parameter registry and parameter block assembler\<close>

text \<open>
  Modelled from the spec: the types of this section are declared outside the sources
  (\<^verbatim>\<open>param_definitions.h\<close>, \<^verbatim>\<open>audio_element_with_data.h\<close>,
  \<^verbatim>\<open>parameter_block.h\<close>, the protos); they hold the fields the generator reads.
  \<open>kParameterDefinitionReserved\<close> stands for the extension types.
\<close>

datatype ParameterDefinitionType =
    kParameterDefinitionMixGain
  | kParameterDefinitionDemixing
  | kParameterDefinitionReconGain
  | kParameterDefinitionReserved nat

text \<open>
  The fields of \<^verbatim>\<open>ParamDefinition\<close> carry the prefix \<open>pd\<close> in place of the
  source's trailing underscore.  \<open>pd_type\<close> is the result of \<^verbatim>\<open>GetType()\<close>;
  \<open>pd_audio_element_id\<close> is the field of \<^verbatim>\<open>ReconGainParamDefinition\<close>.
\<close>

record ParamDefinition =
  pd_parameter_id :: DecodedUleb128
  pd_parameter_rate :: DecodedUleb128
  pd_param_definition_mode :: "8 word"
  pd_duration :: DecodedUleb128
  pd_constant_subblock_duration :: DecodedUleb128
  pd_type :: "ParameterDefinitionType option"
  pd_audio_element_id :: DecodedUleb128



record PerIdParameterMetadata =
  param_definition_type :: ParameterDefinitionType
  param_definition :: ParamDefinition
  num_layers :: nat
  recon_gain_is_present_flags :: "bool list"
  channel_numbers_for_layers :: "ChannelNumbers list"
  audio_element_id :: DecodedUleb128

subsection \<open>GetPerIdMetadata and Initialize\<close>




text \<open>
  The value-initialised objects: every field zero, so the type is the first enumerator,
  \<open>kParameterDefinitionMixGain\<close>.  They serve as \<open>dflt\<close> in the examples.
\<close>

definition zero_ParamDefinition :: ParamDefinition where
  "zero_ParamDefinition =
     \<lparr>pd_parameter_id = 0, pd_parameter_rate = 0, pd_param_definition_mode = 0,
      pd_duration = 0, pd_constant_subblock_duration = 0, pd_type = None,
      pd_audio_element_id = 0\<rparr>"

definition zero_PerIdParameterMetadata :: PerIdParameterMetadata where
  "zero_PerIdParameterMetadata =
     \<lparr>param_definition_type = kParameterDefinitionMixGain,
      param_definition = zero_ParamDefinition, num_layers = 0,
      recon_gain_is_present_flags = [], channel_numbers_for_layers = [],
      audio_element_id = 0\<rparr>"

subsection \<open>Parameter blocks\<close>

text \<open>
  The parameter block OBU and the proto messages are declared outside the sources; the
  types below have the members that the source reads and writes.  A subblock of the OBU
  carries its duration and \<^verbatim>\<open>param_data\<close>, which holds one of the three parameter
  data; \<open>'d\<close> is \<^verbatim>\<open>DemixingInfoParameterData\<close>.  Of the OBU the generator touches
  \<^verbatim>\<open>subblocks_\<close> directly (\<open>obu_subblocks\<close>); everything else of the object is
  \<open>obu_rest\<close>, which only the OBU's own methods read and write.
\<close>

datatype 'd ObuParamData =
    NoParamData
  | MixGainData MixGainParameterData
  | DemixingData 'd
  | ReconGainData "ReconGainElement list"

datatype 'd ParameterSubblock =
  ParameterSubblock (obu_subblock_duration: DecodedUleb128) (obu_param_data: "'d ObuParamData")

record ('d, 'x) ParameterBlockObu =
  obu_subblocks :: "'d ParameterSubblock list"
  obu_rest :: 'x

datatype ('d, 'x) ParameterBlockWithData =
  ParameterBlockWithData (obu: "('d, 'x) ParameterBlockObu") (block_start_timestamp: int)
    (block_end_timestamp: int)

text \<open>
  The proto messages.  \<open>'dp\<close> is the proto \<^verbatim>\<open>DemixingInfoParameterData\<close>, \<open>'h\<close> the
  proto OBU header.  \<open>recon_gain_info_parameter_data\<close> is given by its
  \<^verbatim>\<open>recon_gains_for_layer()\<close>, each layer by the entries of its \<^verbatim>\<open>recon_gain()\<close>
  map.
\<close>

record 'dp ParameterSubblock_proto =
  subblock_duration :: DecodedUleb128
  mix_gain_parameter_data :: MixGainParameterData_proto
  demixing_info_parameter_data :: 'dp
  recon_gain_info_parameter_data :: "(32 word \<times> 32 word) list list"

record ('dp, 'h) ParameterBlockObuMetadata =
  parameter_id :: DecodedUleb128
  start_timestamp :: int
  duration :: DecodedUleb128
  constant_subblock_duration :: DecodedUleb128
  num_subblocks :: DecodedUleb128
  subblocks :: "'dp ParameterSubblock_proto list"
  obu_header :: 'h

text \<open>
  The collaborators that are not part of the sources are parameters: the recon gain
  computation and the order in which a hash map is visited, the copy of the demixing
  payload, the methods of the OBU (\<open>NewParameterBlockObu\<close> is the constructor applied
  to \<^verbatim>\<open>GetHeaderFromMetadata\<close>; the two overloads of \<^verbatim>\<open>InitializeSubblocks\<close>), and
  the timing module with its state \<open>'tm\<close>.  A method that can fail returns the changed
  object on success.
\<close>

datatype ('d, 'dp, 'x, 'h, 'tm, 's) externals =
  Externals
    (ComputeReconGain: "Label \<Rightarrow> 's \<Rightarrow> 's \<Rightarrow> error + double")
    (visit_order: "(Label \<times> double) list \<Rightarrow> (Label \<times> double) list")
    (CopyDemixingInfoParameterData: "'dp \<Rightarrow> error + 'd")
    (SetSubblockDuration:
       "('d, 'x) ParameterBlockObu \<Rightarrow> nat \<Rightarrow> DecodedUleb128
          \<Rightarrow> error + ('d, 'x) ParameterBlockObu")
    (GetNextParameterBlockTimestamps:
       "'tm \<Rightarrow> DecodedUleb128 \<Rightarrow> int \<Rightarrow> DecodedUleb128 \<Rightarrow> (error + int \<times> int) \<times> 'tm")
    (NewParameterBlockObu:
       "'h \<Rightarrow> DecodedUleb128 \<Rightarrow> PerIdParameterMetadata \<Rightarrow> ('d, 'x) ParameterBlockObu")
    (InitializeSubblocks_mode1:
       "('d, 'x) ParameterBlockObu \<Rightarrow> DecodedUleb128 \<Rightarrow> DecodedUleb128 \<Rightarrow> DecodedUleb128
          \<Rightarrow> error + ('d, 'x) ParameterBlockObu")
    (InitializeSubblocks_mode0:
       "('d, 'x) ParameterBlockObu \<Rightarrow> error + ('d, 'x) ParameterBlockObu")
    (GetNumSubblocks: "('d, 'x) ParameterBlockObu \<Rightarrow> DecodedUleb128")
    (GetConstantSubblockDuration: "('d, 'x) ParameterBlockObu \<Rightarrow> DecodedUleb128")

text \<open>\<^verbatim>\<open>obu.subblocks_[subblock_index].param_data = param_data\<close>.\<close>

definition set_param_data ::
  "('d, 'x) ParameterBlockObu \<Rightarrow> nat \<Rightarrow> 'd ObuParamData \<Rightarrow> ('d, 'x) ParameterBlockObu" where
  "set_param_data ob subblock_index pdata =
     ob\<lparr>obu_subblocks :=
          (obu_subblocks ob)
            [subblock_index :=
               ParameterSubblock (obu_subblock_duration (obu_subblocks ob ! subblock_index))
                 pdata]\<rparr>"

text \<open>
  \<open>GenerateParameterBlockSubblock\<close>.  The frame maps are pointers in the source
  (\<open>None\<close> is \<^verbatim>\<open>nullptr\<close>); the logging flag has no effect on the result and is
  left out.
\<close>

definition GenerateParameterBlockSubblock ::
  "('d, 'dp, 'x, 'h, 'tm, 's) externals \<Rightarrow> bool
     \<Rightarrow> (DecodedUleb128 \<rightharpoonup> 's) option \<Rightarrow> (DecodedUleb128 \<rightharpoonup> 's) option
     \<Rightarrow> PerIdParameterMetadata \<Rightarrow> bool \<Rightarrow> nat \<Rightarrow> 'dp ParameterSubblock_proto
     \<Rightarrow> ('d, 'x) ParameterBlockObu \<Rightarrow> error + ('d, 'x) ParameterBlockObu" where
  "GenerateParameterBlockSubblock ext override id_to_labeled_frame
       id_to_labeled_decoded_frame per_id_metadata include_subblock_duration subblock_index
       metadata_subblock ob =
     (case (if include_subblock_duration
            then SetSubblockDuration ext ob subblock_index (subblock_duration metadata_subblock)
            else Inr ob) of
        Inl e \<Rightarrow> Inl e
      | Inr ob1 \<Rightarrow>
          if length (obu_subblocks ob1) \<le> subblock_index then Inl Undefined
          else
            case param_definition_type per_id_metadata of
              kParameterDefinitionMixGain \<Rightarrow>
                (case GenerateMixGainSubblock (mix_gain_parameter_data metadata_subblock) of
                   Inl e \<Rightarrow> Inl e
                 | Inr pdata \<Rightarrow> Inr (set_param_data ob1 subblock_index (MixGainData pdata)))
            | kParameterDefinitionDemixing \<Rightarrow>
                if 1 < subblock_index then Inl InvalidArgument
                else
                  (case CopyDemixingInfoParameterData ext
                          (demixing_info_parameter_data metadata_subblock) of
                     Inl e \<Rightarrow> Inl e
                   | Inr pdata \<Rightarrow>
                       Inr (set_param_data ob1 subblock_index (DemixingData pdata)))
            | kParameterDefinitionReconGain \<Rightarrow>
                if 1 < subblock_index then Inl InvalidArgument
                else
                  (case id_to_labeled_frame of
                     None \<Rightarrow> Inl Undefined
                   | Some frames \<Rightarrow>
                  (case id_to_labeled_decoded_frame of
                     None \<Rightarrow> Inl Undefined
                   | Some decoded_frames \<Rightarrow>
                  (case GenerateReconGainSubblock (ComputeReconGain ext) (visit_order ext)
                          override frames decoded_frames (num_layers per_id_metadata)
                          (recon_gain_is_present_flags per_id_metadata)
                          (channel_numbers_for_layers per_id_metadata)
                          (recon_gain_info_parameter_data metadata_subblock)
                          (audio_element_id per_id_metadata) of
                     Inl e \<Rightarrow> Inl e
                   | Inr pdata \<Rightarrow>
                       Inr (set_param_data ob1 subblock_index (ReconGainData pdata)))))
            | kParameterDefinitionReserved n \<Rightarrow> Inl InvalidArgument)"

definition PopulateCommonFields ::
  "('d, 'dp, 'x, 'h, 'tm, 's) externals \<Rightarrow> ('dp, 'h) ParameterBlockObuMetadata
     \<Rightarrow> PerIdParameterMetadata \<Rightarrow> 'tm
     \<Rightarrow> (error + ('d, 'x) ParameterBlockWithData) \<times> 'tm" where
  "PopulateCommonFields ext parameter_block_metadata per_id_metadata global_timing_module =
     (let mode = pd_param_definition_mode (param_definition per_id_metadata);
          block_duration =
            (if mode = 1 then duration parameter_block_metadata
             else pd_duration (param_definition per_id_metadata))
      in
      case GetNextParameterBlockTimestamps ext global_timing_module
             (parameter_id parameter_block_metadata)
             (start_timestamp parameter_block_metadata) block_duration of
        (Inl e, tm) \<Rightarrow> (Inl e, tm)
      | (Inr (start, end), tm) \<Rightarrow>
          let ob = NewParameterBlockObu ext (obu_header parameter_block_metadata)
                     (parameter_id parameter_block_metadata) per_id_metadata
          in
          case (if mode = 1
                then InitializeSubblocks_mode1 ext ob (duration parameter_block_metadata)
                       (constant_subblock_duration parameter_block_metadata)
                       (num_subblocks parameter_block_metadata)
                else InitializeSubblocks_mode0 ext ob) of
            Inl e \<Rightarrow> (Inl e, tm)
          | Inr ob1 \<Rightarrow> (Inr (ParameterBlockWithData ob1 start end), tm))"

fun PopulateSubblocks_loop ::
  "(nat \<Rightarrow> ('d, 'x) ParameterBlockObu \<Rightarrow> error + ('d, 'x) ParameterBlockObu)
     \<Rightarrow> nat list \<Rightarrow> ('d, 'x) ParameterBlockObu \<Rightarrow> error + ('d, 'x) ParameterBlockObu" where
  "PopulateSubblocks_loop generate [] ob = Inr ob"
| "PopulateSubblocks_loop generate (i # rest) ob =
     (case generate i ob of
        Inl e \<Rightarrow> Inl e
      | Inr ob1 \<Rightarrow> PopulateSubblocks_loop generate rest ob1)"

definition PopulateSubblocks ::
  "('d, 'dp, 'x, 'h, 'tm, 's) externals \<Rightarrow> ('dp, 'h) ParameterBlockObuMetadata \<Rightarrow> bool
     \<Rightarrow> (DecodedUleb128 \<rightharpoonup> 's) option \<Rightarrow> (DecodedUleb128 \<rightharpoonup> 's) option
     \<Rightarrow> PerIdParameterMetadata \<Rightarrow> ('d, 'x) ParameterBlockWithData
     \<Rightarrow> error + ('d, 'x) ParameterBlockWithData" where
  "PopulateSubblocks ext parameter_block_metadata override id_to_labeled_frame
       id_to_labeled_decoded_frame per_id_metadata output_parameter_block =
     (let parameter_block_obu = obu output_parameter_block;
          n = GetNumSubblocks ext parameter_block_obu;
          include_subblock_duration =
            (pd_param_definition_mode (param_definition per_id_metadata) = 1
             \<and> GetConstantSubblockDuration ext parameter_block_obu = 0)
      in
      if unat n \<noteq> length (subblocks parameter_block_metadata) then Inl InvalidArgument
      else
        case PopulateSubblocks_loop
               (\<lambda>i. GenerateParameterBlockSubblock ext override id_to_labeled_frame
                      id_to_labeled_decoded_frame per_id_metadata include_subblock_duration i
                      (subblocks parameter_block_metadata ! i))
               [0..<unat n] parameter_block_obu of
          Inl e \<Rightarrow> Inl e
        | Inr ob1 \<Rightarrow>
            Inr (ParameterBlockWithData ob1 (block_start_timestamp output_parameter_block)
                   (block_end_timestamp output_parameter_block)))"

text \<open>
  The state of the generator.  The field names are the source's without the trailing
  underscore.  \<^verbatim>\<open>typed_proto_metadata_[type]\<close> creates an empty queue for a type that
  has none, so the queues are a total function.
\<close>

record ('dp, 'h) ParameterBlockGenerator =
  override_computed_recon_gains :: bool
  additional_recon_gains_logging :: bool
  parameter_id_to_metadata :: "DecodedUleb128 \<rightharpoonup> PerIdParameterMetadata"
  typed_proto_metadata ::
    "ParameterDefinitionType \<Rightarrow> ('dp, 'h) ParameterBlockObuMetadata list"

text \<open>
  The loop of \<open>GenerateParameterBlocks\<close> over the queue: the status (\<open>None\<close> is OK),
  the generator, the timing module and the output list at the point where the loop
  ends or returns.  \<^verbatim>\<open>RETURN_IF_NOT_OK\<close> returns at the first failing record.
\<close>

fun GenerateParameterBlocks_loop ::
  "('d, 'dp, 'x, 'h, 'tm, 's) externals
     \<Rightarrow> (DecodedUleb128 \<rightharpoonup> 's) option \<Rightarrow> (DecodedUleb128 \<rightharpoonup> 's) option
     \<Rightarrow> ('dp, 'h) ParameterBlockObuMetadata list \<Rightarrow> ('dp, 'h) ParameterBlockGenerator
     \<Rightarrow> 'tm \<Rightarrow> ('d, 'x) ParameterBlockWithData list
     \<Rightarrow> error option \<times> ('dp, 'h) ParameterBlockGenerator \<times> 'tm
          \<times> ('d, 'x) ParameterBlockWithData list" where
  "GenerateParameterBlocks_loop ext id_to_labeled_frame id_to_labeled_decoded_frame []
       gen global_timing_module output_parameter_blocks =
     (None, gen, global_timing_module, output_parameter_blocks)"
| "GenerateParameterBlocks_loop ext id_to_labeled_frame id_to_labeled_decoded_frame
       (parameter_block_metadata # rest) gen global_timing_module output_parameter_blocks =
     (case parameter_id_to_metadata gen (parameter_id parameter_block_metadata) of
        None \<Rightarrow> (Some Aborted, gen, global_timing_module, output_parameter_blocks)
      | Some per_id_metadata \<Rightarrow>
          (case PopulateCommonFields ext parameter_block_metadata per_id_metadata
                  global_timing_module of
             (Inl e, tm) \<Rightarrow> (Some e, gen, tm, output_parameter_blocks)
           | (Inr output_parameter_block, tm) \<Rightarrow>
               (case PopulateSubblocks ext parameter_block_metadata
                       (override_computed_recon_gains gen) id_to_labeled_frame
                       id_to_labeled_decoded_frame per_id_metadata output_parameter_block of
                  Inl e \<Rightarrow> (Some e, gen, tm, output_parameter_blocks)
                | Inr output_parameter_block1 \<Rightarrow>
                    GenerateParameterBlocks_loop ext id_to_labeled_frame
                      id_to_labeled_decoded_frame rest
                      (if \<not> override_computed_recon_gains gen
                       then gen\<lparr>additional_recon_gains_logging := False\<rparr> else gen)
                      tm (output_parameter_blocks @ [output_parameter_block1]))))"

text \<open>
  \<open>GenerateParameterBlocks\<close> on the queue of the type \<open>t\<close>.  After the loop the blocks
  are logged, which cannot fail, and the queue is cleared.
\<close>

definition GenerateParameterBlocks ::
  "('d, 'dp, 'x, 'h, 'tm, 's) externals
     \<Rightarrow> (DecodedUleb128 \<rightharpoonup> 's) option \<Rightarrow> (DecodedUleb128 \<rightharpoonup> 's) option
     \<Rightarrow> ParameterDefinitionType \<Rightarrow> ('dp, 'h) ParameterBlockGenerator
     \<Rightarrow> 'tm \<Rightarrow> ('d, 'x) ParameterBlockWithData list
     \<Rightarrow> error option \<times> ('dp, 'h) ParameterBlockGenerator \<times> 'tm
          \<times> ('d, 'x) ParameterBlockWithData list" where
  "GenerateParameterBlocks ext id_to_labeled_frame id_to_labeled_decoded_frame t gen
       global_timing_module output_parameter_blocks =
     (case GenerateParameterBlocks_loop ext id_to_labeled_frame id_to_labeled_decoded_frame
             (typed_proto_metadata gen t) gen global_timing_module output_parameter_blocks of
        (Some e, gen1, tm, blocks) \<Rightarrow> (Some e, gen1, tm, blocks)
      | (None, gen1, tm, blocks) \<Rightarrow>
          (None, gen1\<lparr>typed_proto_metadata := (typed_proto_metadata gen1)(t := [])\<rparr>, tm,
           blocks))"


definition GenerateMixGain ::
  "('d, 'dp, 'x, 'h, 'tm, 's) externals \<Rightarrow> ('dp, 'h) ParameterBlockGenerator
     \<Rightarrow> 'tm \<Rightarrow> ('d, 'x) ParameterBlockWithData list
     \<Rightarrow> error option \<times> ('dp, 'h) ParameterBlockGenerator \<times> 'tm
          \<times> ('d, 'x) ParameterBlockWithData list" where
  "GenerateMixGain ext gen global_timing_module output_parameter_blocks =
     GenerateParameterBlocks ext None None kParameterDefinitionMixGain gen
       global_timing_module output_parameter_blocks"

definition GenerateReconGain ::
  "('d, 'dp, 'x, 'h, 'tm, 's) externals
     \<Rightarrow> (DecodedUleb128 \<rightharpoonup> 's) \<Rightarrow> (DecodedUleb128 \<rightharpoonup> 's)
     \<Rightarrow> ('dp, 'h) ParameterBlockGenerator
     \<Rightarrow> 'tm \<Rightarrow> ('d, 'x) ParameterBlockWithData list
     \<Rightarrow> error option \<times> ('dp, 'h) ParameterBlockGenerator \<times> 'tm
          \<times> ('d, 'x) ParameterBlockWithData list" where
  "GenerateReconGain ext id_to_labeled_frame id_to_labeled_decoded_frame gen
       global_timing_module output_parameter_blocks =
     GenerateParameterBlocks ext (Some id_to_labeled_frame)
       (Some id_to_labeled_decoded_frame) kParameterDefinitionReconGain gen
       global_timing_module output_parameter_blocks"

text \<open>
  Stand-ins for the collaborators, for the examples: the payload is copied as it is, the
  timing module accepts every block, and an OBU gets one empty subblock per subblock of
  its definition (one in mode 0).
\<close>

definition example_externals :: "(nat, nat, unit, unit, unit, unit) externals" where
  "example_externals =
     Externals
       (\<lambda>label original decoded. Inr (Double 1 (- 1)))
       (\<lambda>m. m)
       Inr
       (\<lambda>ob i d. Inr ob)
       (\<lambda>tm pid start d. (Inr (start, start + uint d), tm))
       (\<lambda>h pid md. \<lparr>obu_subblocks = [], obu_rest = ()\<rparr>)
       (\<lambda>ob d c n. Inr (ob\<lparr>obu_subblocks := replicate (unat n) (ParameterSubblock 0 NoParamData)\<rparr>))
       (\<lambda>ob. Inr (ob\<lparr>obu_subblocks := [ParameterSubblock 0 NoParamData]\<rparr>))
       (\<lambda>ob. of_nat (length (obu_subblocks ob)))
       (\<lambda>ob. 0)"

text \<open>
  For the examples: a subblock of the metadata with the demixing payload \<open>p\<close> and no
  animation, the metadata of a parameter block with the id 1 and these subblocks, and a
  generator that knows the id 1 as a demixing parameter and has the given records queued
  for demixing.
\<close>

definition example_subblock :: "nat \<Rightarrow> nat ParameterSubblock_proto" where
  "example_subblock p =
     \<lparr>subblock_duration = 0,
      mix_gain_parameter_data =
        \<lparr>animation_type = ANIMATE_INVALID, step_start_point_value = 0,
         linear_start_point_value = 0, linear_end_point_value = 0,
         bezier_start_point_value = 0, bezier_end_point_value = 0,
         bezier_control_point_value = 0, bezier_control_point_relative_time = 0\<rparr>,
      demixing_info_parameter_data = p, recon_gain_info_parameter_data = []\<rparr>"



section \<open>Properties\<close>

lemma FindDemixedChannels_surround_top:
  "7 < s \<Longrightarrow> FindDemixedChannels_surround acc layer s ls =
     (if s \<le> surround layer then Inl InvalidArgument else Inr ls)"
  by (subst FindDemixedChannels_surround.simps) simp

lemma loop_below_2:
  "s \<le> 2 \<Longrightarrow> FindDemixedChannels_surround acc layer s ls = FindDemixedChannels_surround acc layer 2 ls"
proof (induction "nat (2 - s)" arbitrary: s)
  case 0
  then show ?case by simp
next
  case (Suc n)
  then have s: "s < 2" and n: "n = nat (2 - (s + 1))" and le: "s + 1 \<le> 2" by linarith+
  have "FindDemixedChannels_surround acc layer s ls =
        (if s \<le> surround layer then FindDemixedChannels_surround acc layer (s + 1) ls else Inr ls)"
    using s by (subst FindDemixedChannels_surround.simps) simp
  also have "\<dots> = FindDemixedChannels_surround acc layer 2 ls"
  proof (cases "s \<le> surround layer")
    case True
    then show ?thesis using Suc.hyps(1)[OF n le] by simp
  next
    case False
    then have "\<not> 2 \<le> surround layer" using s by linarith
    then show ?thesis using False by (subst (2) FindDemixedChannels_surround.simps) simp
  qed
  finally show ?case .
qed

lemma loop_from_7:
  "FindDemixedChannels_surround acc layer 7 ls =
     (if 7 < surround layer then Inl InvalidArgument
      else Inr (ls @ (if 7 \<le> surround layer then [kDemixedL7, kDemixedR7, kDemixedLrs7, kDemixedRrs7] else [])))"
  by (simp add: FindDemixedChannels_surround.simps[of acc layer 7] FindDemixedChannels_surround_top)

lemma loop_from_6:
  "FindDemixedChannels_surround acc layer 6 ls = FindDemixedChannels_surround acc layer 7 ls"
  by (simp add: FindDemixedChannels_surround.simps[of acc layer 6] loop_from_7)

lemma loop_from_5:
  "FindDemixedChannels_surround acc layer 5 ls =
     (if 7 < surround layer then Inl InvalidArgument
      else Inr (ls @ (if 5 \<le> surround layer then [kDemixedLs5, kDemixedRs5] else []) @
        (if 7 \<le> surround layer then [kDemixedL7, kDemixedR7, kDemixedLrs7, kDemixedRrs7] else [])))"
  by (simp add: FindDemixedChannels_surround.simps[of acc layer 5] loop_from_6 loop_from_7)

lemma loop_from_4:
  "FindDemixedChannels_surround acc layer 4 ls = FindDemixedChannels_surround acc layer 5 ls"
  by (simp add: FindDemixedChannels_surround.simps[of acc layer 4] loop_from_5)

lemma loop_from_3:
  "FindDemixedChannels_surround acc layer 3 ls =
     (if 7 < surround layer then Inl InvalidArgument
      else Inr (ls @ (if 3 \<le> surround layer then [kDemixedL3, kDemixedR3] else []) @
        (if 5 \<le> surround layer then [kDemixedLs5, kDemixedRs5] else []) @
        (if 7 \<le> surround layer then [kDemixedL7, kDemixedR7, kDemixedLrs7, kDemixedRrs7] else [])))"
  by (simp add: FindDemixedChannels_surround.simps[of acc layer 3] loop_from_4 loop_from_5)

lemma loop_from_2:
  "FindDemixedChannels_surround acc layer 2 ls =
     (if 7 < surround layer then Inl InvalidArgument
      else Inr (ls @ (if surround acc = 1 \<and> 2 \<le> surround layer then [kDemixedR2] else []) @
        (if 3 \<le> surround layer then [kDemixedL3, kDemixedR3] else []) @
        (if 5 \<le> surround layer then [kDemixedLs5, kDemixedRs5] else []) @
        (if 7 \<le> surround layer then [kDemixedL7, kDemixedR7, kDemixedLrs7, kDemixedRrs7] else [])))"
  by (simp add: FindDemixedChannels_surround.simps[of acc layer 2] loop_from_3)

lemma loop_from_acc:
  "FindDemixedChannels_surround acc layer (surround acc + 1) ls =
     (if surround acc < surround layer \<and> 7 < surround layer then Inl InvalidArgument
      else Inr (ls @ (if surround acc = 1 \<and> 2 \<le> surround layer then [kDemixedR2] else []) @
        (if crosses acc layer 3 then [kDemixedL3, kDemixedR3] else []) @
        (if crosses acc layer 5 then [kDemixedLs5, kDemixedRs5] else []) @
        (if crosses acc layer 7 then [kDemixedL7, kDemixedR7, kDemixedLrs7, kDemixedRrs7] else [])))"
  (is "?lhs = ?rhs")
proof -
  consider "surround acc \<le> 1" | "surround acc = 2" | "surround acc = 3" | "surround acc = 4"
    | "surround acc = 5" | "surround acc = 6" | "7 \<le> surround acc" by linarith
  then show ?thesis
  proof cases
    case 1
    have "?lhs = FindDemixedChannels_surround acc layer 2 ls"
      using 1 by (intro loop_below_2) simp
    also have "\<dots> = ?rhs"
      unfolding loop_from_2 crosses_def using 1 by simp
    finally show ?thesis .
  next
    case 2
    have "?lhs = FindDemixedChannels_surround acc layer 3 ls" by (simp add: 2)
    also have "\<dots> = ?rhs" unfolding loop_from_3 crosses_def by (simp add: 2)
    finally show ?thesis .
  next
    case 3
    have "?lhs = FindDemixedChannels_surround acc layer 5 ls" by (simp add: 3 loop_from_4)
    also have "\<dots> = ?rhs" unfolding loop_from_5 crosses_def by (simp add: 3)
    finally show ?thesis .
  next
    case 4
    have "?lhs = FindDemixedChannels_surround acc layer 5 ls" by (simp add: 4)
    also have "\<dots> = ?rhs" unfolding loop_from_5 crosses_def by (simp add: 4)
    finally show ?thesis .
  next
    case 5
    have "?lhs = FindDemixedChannels_surround acc layer 7 ls" by (simp add: 5 loop_from_6)
    also have "\<dots> = ?rhs" unfolding loop_from_7 crosses_def by (simp add: 5)
    finally show ?thesis .
  next
    case 6
    have "?lhs = FindDemixedChannels_surround acc layer 7 ls" by (simp add: 6)
    also have "\<dots> = ?rhs" unfolding loop_from_7 crosses_def by (simp add: 6)
    finally show ?thesis .
  next
    case 7
    then have "7 < surround acc + 1" by simp
    then have "?lhs = (if surround acc + 1 \<le> surround layer then Inl InvalidArgument else Inr ls)"
      by (rule FindDemixedChannels_surround_top)
    also have "\<dots> = ?rhs" unfolding crosses_def using 7 by simp
    finally show ?thesis .
  qed
qed

lemma wrap_int32_succ:
  "int32 x \<Longrightarrow> x \<noteq> 2147483647 \<Longrightarrow> wrap_int32 (x + 1) = x + 1"
  by (simp add: int32_def wrap_int32_def)

text \<open>
  Claim C2, as amended.  For every pair of accumulated and layer channel numbers whose
  accumulated surround count is a 32-bit int below \<open>INT_MAX\<close> (so that the increment
  does not overflow), \<open>FindDemixedChannels\<close> appends exactly the ordered label list of
  section 4.7 to the list it is given: the transition 1 to 2 gives DemixedR2; crossing 3
  gives DemixedL3, DemixedR3; crossing 5 gives DemixedLs5, DemixedRs5; crossing 7 gives
  DemixedL7, DemixedR7, DemixedLrs7, DemixedRrs7; height 2 to 4 gives DemixedLtb4,
  DemixedRtb4; height staying 2 while surround leaves exactly 3 gives DemixedLtf2,
  DemixedRtf2; nothing else is emitted.  It fails exactly when the layer's surround
  count is above 7 and above the accumulated surround count; a layer whose surround
  count is above 7 but not above the accumulated one does not fail.
\<close>

theorem FindDemixedChannels_label_list:
  assumes "int32 (surround acc)" and "surround acc \<noteq> 2147483647"
  shows "FindDemixedChannels acc layer ls =
           (case demixed_label_list acc layer of
              Inl e \<Rightarrow> Inl e
            | Inr labels \<Rightarrow> Inr (ls @ labels))"
proof (cases "surround acc < surround layer \<and> 7 < surround layer")
  case True
  then have "FindDemixedChannels_surround acc layer (surround acc + 1) ls = Inl InvalidArgument"
    by (simp only: loop_from_acc simp_thms if_True)
  then show ?thesis
    using True
    by (simp only: FindDemixedChannels_def demixed_label_list_def wrap_int32_succ[OF assms]
          sum.case simp_thms if_True)
next
  case False
  define S where "S =
    (if surround acc = 1 \<and> 2 \<le> surround layer then [kDemixedR2] else []) @
    (if crosses acc layer 3 then [kDemixedL3, kDemixedR3] else []) @
    (if crosses acc layer 5 then [kDemixedLs5, kDemixedRs5] else []) @
    (if crosses acc layer 7
     then [kDemixedL7, kDemixedR7, kDemixedLrs7, kDemixedRrs7] else [])"
  have loop: "FindDemixedChannels_surround acc layer (wrap_int32 (surround acc + 1)) ls =
      Inr (ls @ S)"
    using False by (simp only: wrap_int32_succ[OF assms] loop_from_acc simp_thms if_False S_def)
  have closed: "demixed_label_list acc layer =
    Inr (S @ (if height acc = 2 \<and> height layer = 4 then [kDemixedLtb4, kDemixedRtb4]
         else if height acc = 2 \<and> height layer = 2 \<and> surround acc = 3 \<and> 3 < surround layer
         then [kDemixedLtf2, kDemixedRtf2]
         else []))"
    using False by (simp only: demixed_label_list_def simp_thms if_False S_def append_assoc)
  show ?thesis
    unfolding FindDemixedChannels_def loop closed by simp
qed

theorem FindDemixedChannels_label_list_witness:
  "FindDemixedChannels \<lparr>surround = 1, lfe = 0, height = 2\<rparr>
       \<lparr>surround = 7, lfe = 1, height = 4\<rparr> [] =
     Inr [kDemixedR2, kDemixedL3, kDemixedR3, kDemixedLs5, kDemixedRs5,
          kDemixedL7, kDemixedR7, kDemixedLrs7, kDemixedRrs7, kDemixedLtb4, kDemixedRtb4]"
  using FindDemixedChannels_label_list
          [of "\<lparr>surround = 1, lfe = 0, height = 2\<rparr>"
              "\<lparr>surround = 7, lfe = 1, height = 4\<rparr>" "[]"]
  by (simp add: int32_def demixed_label_list_def crosses_def)

text \<open>
  The claim as stated fails where the layer's surround count is above 7 but not above
  the accumulated count: from (8, 0, 2) to (8, 0, 4) the loop has no iteration, the
  function returns OK with the two height labels, and the list of section 4.7 fails.
\<close>

theorem FindDemixedChannels_above_7_counterexample:
  "spec_demixed_labels \<lparr>surround = 8, lfe = 0, height = 2\<rparr>
       \<lparr>surround = 8, lfe = 0, height = 4\<rparr> = Inl InvalidArgument
   \<and> FindDemixedChannels \<lparr>surround = 8, lfe = 0, height = 2\<rparr>
       \<lparr>surround = 8, lfe = 0, height = 4\<rparr> [] = Inr [kDemixedLtb4, kDemixedRtb4]"
  by (simp add: spec_demixed_labels_def FindDemixedChannels_def wrap_int32_def
        FindDemixedChannels_surround_top)

subsection \<open>Rounding and truncation of doubles\<close>

lemma excess_bits_upper: "0 \<le> n \<Longrightarrow> n < 2 ^ (53 + excess_bits n)"
proof (induction n rule: excess_bits.induct)
  case (1 n)
  show ?case
  proof (cases "n < 2 ^ 53")
    case True
    then show ?thesis by (subst excess_bits.simps) simp
  next
    case False
    have ex: "excess_bits n = Suc (excess_bits (n div 2))"
      using False by (subst excess_bits.simps) simp
    have "n div 2 < 2 ^ (53 + excess_bits (n div 2))"
      using 1 False by simp
    then have "n < 2 * 2 ^ (53 + excess_bits (n div 2))" by linarith
    then show ?thesis unfolding ex add_Suc_right power_Suc .
  qed
qed













subsection \<open>The loop of ConvertReconGainsAndFlags\<close>


lemma step_simp:
  "ConvertReconGainsAndFlags_step (gs, fl, lg) (l, g) =
     (gs[bit_position l := static_cast_uint8 (dmul g (Double 255 0))],
      fl OR push_bit (bit_position l) 1,
      if recognised l then lg else lg @ [l])"
  by (simp add: ConvertReconGainsAndFlags_step_def)




lemma foldl_step_gain_other:
  assumes "\<forall>x \<in> set m. bit_position (fst x) \<noteq> i"
  shows "fst (foldl ConvertReconGainsAndFlags_step st m) ! i = fst st ! i"
  using assms
proof (induction m rule: rev_induct)
  case Nil
  then show ?case by simp
next
  case (snoc x m)
  obtain l' g' where x: "x = (l', g')" by (cases x)
  obtain gs fl lg where f: "foldl ConvertReconGainsAndFlags_step st m = (gs, fl, lg)"
    by (cases "foldl ConvertReconGainsAndFlags_step st m")
  have upd: "fst (foldl ConvertReconGainsAndFlags_step st (m @ [x])) =
      gs[bit_position l' := static_cast_uint8 (dmul g' (Double 255 0))]"
    by (simp add: x f step_simp)
  have ne: "bit_position l' \<noteq> i" using snoc.prems x by simp
  have all_m: "\<forall>x \<in> set m. bit_position (fst x) \<noteq> i" using snoc.prems by simp
  have "fst (foldl ConvertReconGainsAndFlags_step st m) ! i = fst st ! i"
    using all_m by (rule snoc.IH)
  then have "gs ! i = fst st ! i" by (simp add: f)
  then show ?case
    unfolding upd using ne by simp
qed




subsection \<open>What ConvertReconGainsAndFlags stores\<close>










subsection \<open>ComputeReconGains and the presence flags\<close>

lemma compute_gains_keys:
  "compute_gains crg ls s d m0 = Inr m \<Longrightarrow> fst ` set m = set ls \<union> fst ` set m0"
proof (induction ls arbitrary: m0)
  case Nil
  then show ?case by simp
next
  case (Cons l ls)
  then obtain g where g: "crg l s d = Inr g"
    and rest: "compute_gains crg ls s d (AList.update l g m0) = Inr m"
    by (auto split: sum.splits)
  have "fst ` set m = set ls \<union> fst ` set (AList.update l g m0)"
    using rest by (rule Cons.IH)
  then show ?case by (simp add: dom_update)
qed

lemma label_to_recon_gain_of_empty:
  assumes "label_to_recon_gain_of crg layer_index layer_channels accumulated_channels s d = Inr m"
  shows "(m \<noteq> []) = (demixed_channels_of_layer layer_index layer_channels accumulated_channels \<noteq> [])"
proof (cases "0 < layer_index")
  case False
  then show ?thesis
    using assms by (simp add: label_to_recon_gain_of_def demixed_channels_of_layer_def)
next
  case True
  then obtain labels where f: "FindDemixedChannels accumulated_channels layer_channels [] = Inr labels"
    and c: "compute_gains crg labels s d [] = Inr m"
    using assms by (auto simp: label_to_recon_gain_of_def split: sum.splits)
  have "fst ` set m = set labels" using compute_gains_keys[OF c] by simp
  then have "(m = []) = (labels = [])" by (metis image_is_empty set_empty)
  then show ?thesis using True f by (simp add: demixed_channels_of_layer_def)
qed

text \<open>
  Claim C6.  For a layer index within the presence flags, whenever
  \<open>recon_gain_is_present_flags[k]\<close> differs from whether the demixed channel set of
  layer \<open>k\<close> is non-empty, \<open>ComputeReconGains\<close> returns an error: the mismatch error,
  or the error of \<open>FindDemixedChannels\<close> or of the gain computation when one of them
  fails first.
\<close>

theorem ComputeReconGains_flag_mismatch:
  assumes "layer_index < length present_flags"
    and "present_flags ! layer_index \<noteq>
           (demixed_channels_of_layer layer_index layer_channels accumulated_channels \<noteq> [])"
  shows "ComputeReconGains crg visit layer_index layer_channels accumulated_channels s d
           present_flags computed_recon_gains =
         (case label_to_recon_gain_of crg layer_index layer_channels accumulated_channels s d of
            Inl e \<Rightarrow> Inl e
          | Inr label_to_recon_gain \<Rightarrow> Inl InvalidArgument)"
proof (cases "label_to_recon_gain_of crg layer_index layer_channels accumulated_channels s d")
  case (Inl e)
  then show ?thesis by (simp add: ComputeReconGains_def)
next
  case (Inr m)
  have "(m \<noteq> []) = (demixed_channels_of_layer layer_index layer_channels accumulated_channels \<noteq> [])"
    using Inr by (rule label_to_recon_gain_of_empty)
  then have "present_flags ! layer_index \<noteq> (m \<noteq> [])"
    using assms(2) by simp
  then show ?thesis using Inr assms(1) by (simp add: ComputeReconGains_def)
qed

theorem ComputeReconGains_flag_mismatch_witness:
  "ComputeReconGains (\<lambda>label a b. Inr (Double 1 (- 1))) id 1
       \<lparr>surround = 2, lfe = 0, height = 0\<rparr> \<lparr>surround = 1, lfe = 0, height = 0\<rparr>
       () () [False, False] [] = Inl InvalidArgument
   \<and> ComputeReconGains (\<lambda>label a b. Inr (Double 1 (- 1))) id 0
       \<lparr>surround = 2, lfe = 0, height = 0\<rparr> \<lparr>surround = 0, lfe = 0, height = 0\<rparr>
       () () [True] [] = Inl InvalidArgument"
  using ComputeReconGains_flag_mismatch
          [of 1 "[False, False]" "\<lparr>surround = 2, lfe = 0, height = 0\<rparr>"
              "\<lparr>surround = 1, lfe = 0, height = 0\<rparr>" "\<lambda>label a b. Inr (Double 1 (- 1))"
              id "()" "()" "[]"]
        ComputeReconGains_flag_mismatch
          [of 0 "[True]" "\<lparr>surround = 2, lfe = 0, height = 0\<rparr>"
              "\<lparr>surround = 0, lfe = 0, height = 0\<rparr>" "\<lambda>label a b. Inr (Double 1 (- 1))"
              id "()" "()" "[]"]
  by (simp add: demixed_channels_of_layer_def label_to_recon_gain_of_def
        FindDemixedChannels_def wrap_int32_def loop_from_2)


subsection \<open>Mix gain: the narrowing casts\<close>

lemma sint_word_of_int_16:
  "- 32768 \<le> k \<Longrightarrow> k \<le> 32767 \<Longrightarrow> sint (word_of_int k :: 16 word) = k"
  by (simp add: sint_sbintrunc' signed_take_bit_int_eq_self)

lemma uint_word_of_int_8:
  "0 \<le> k \<Longrightarrow> k \<le> 255 \<Longrightarrow> uint (word_of_int k :: 8 word) = k"
  by (simp add: uint_word_of_int)

lemma Int32ToInt16_fits:
  assumes "fits_int16 (sint x)"
  shows "\<exists>y. Int32ToInt16 x = Inr y \<and> sint y = sint x"
proof -
  have r: "- 32768 \<le> sint x" "sint x \<le> 32767" using assms by (simp_all add: fits_int16_def)
  have "Int32ToInt16 x = Inr (word_of_int (sint x))"
    unfolding Int32ToInt16_def using r by (simp only: simp_thms if_True)
  moreover have "sint (word_of_int (sint x) :: 16 word) = sint x"
    using r by (rule sint_word_of_int_16)
  ultimately show ?thesis by blast
qed

lemma Int32ToInt16_overflow:
  "\<not> fits_int16 (sint x) \<Longrightarrow> Int32ToInt16 x = Inl NumericOverflow"
  by (auto simp: Int32ToInt16_def fits_int16_def)

lemma Uint32ToUint8_fits:
  assumes "fits_uint8 (uint x)"
  shows "\<exists>y. Uint32ToUint8 x = Inr y \<and> uint y = uint x"
proof -
  have r: "0 \<le> uint x" "uint x \<le> 255" using assms by (simp_all add: fits_uint8_def)
  have "Uint32ToUint8 x = Inr (word_of_int (uint x))"
    unfolding Uint32ToUint8_def using r by (simp only: simp_thms if_True)
  moreover have "uint (word_of_int (uint x) :: 8 word) = uint x"
    using r by (rule uint_word_of_int_8)
  ultimately show ?thesis by blast
qed

lemma Uint32ToUint8_overflow:
  "\<not> fits_uint8 (uint x) \<Longrightarrow> Uint32ToUint8 x = Inl NumericOverflow"
  by (auto simp: Uint32ToUint8_def fits_uint8_def)

lemma GenerateMixGainSubblock_step:
  assumes "animation_type md = ANIMATE_STEP"
  shows "if fits_int16 (sint (step_start_point_value md))
         then \<exists>out. GenerateMixGainSubblock md = Inr out
                \<and> obu_animation_values (param_data out) = animation_values md
                \<and> obu_relative_times (param_data out) = relative_times md
         else GenerateMixGainSubblock md = Inl NumericOverflow"
proof (cases "fits_int16 (sint (step_start_point_value md))")
  case True
  then obtain s where "Int32ToInt16 (step_start_point_value md) = Inr s"
    "sint s = sint (step_start_point_value md)"
    using Int32ToInt16_fits by blast
  then show ?thesis
    using True assms
    by (simp add: GenerateMixGainSubblock_def animation_values_def relative_times_def
          obu_animation_values_def obu_relative_times_def)
next
  case False
  then show ?thesis
    using assms by (simp add: GenerateMixGainSubblock_def Int32ToInt16_overflow)
qed

lemma GenerateMixGainSubblock_linear:
  assumes "animation_type md = ANIMATE_LINEAR"
  shows "if fits_int16 (sint (linear_start_point_value md))
            \<and> fits_int16 (sint (linear_end_point_value md))
         then \<exists>out. GenerateMixGainSubblock md = Inr out
                \<and> obu_animation_values (param_data out) = animation_values md
                \<and> obu_relative_times (param_data out) = relative_times md
         else GenerateMixGainSubblock md = Inl NumericOverflow"
proof (cases "fits_int16 (sint (linear_start_point_value md))")
  case s: True
  then obtain s where s': "Int32ToInt16 (linear_start_point_value md) = Inr s"
    "sint s = sint (linear_start_point_value md)"
    using Int32ToInt16_fits by blast
  show ?thesis
  proof (cases "fits_int16 (sint (linear_end_point_value md))")
    case True
    then obtain e where "Int32ToInt16 (linear_end_point_value md) = Inr e"
      "sint e = sint (linear_end_point_value md)"
      using Int32ToInt16_fits by blast
    then show ?thesis
      using True s s' assms
      by (simp add: GenerateMixGainSubblock_def animation_values_def relative_times_def
            obu_animation_values_def obu_relative_times_def)
  next
    case False
    then show ?thesis
      using s' assms by (simp add: GenerateMixGainSubblock_def Int32ToInt16_overflow)
  qed
next
  case False
  then show ?thesis
    using assms by (simp add: GenerateMixGainSubblock_def Int32ToInt16_overflow)
qed

lemma GenerateMixGainSubblock_bezier:
  assumes "animation_type md = ANIMATE_BEZIER"
  shows "if fits_int16 (sint (bezier_start_point_value md))
            \<and> fits_int16 (sint (bezier_end_point_value md))
            \<and> fits_int16 (sint (bezier_control_point_value md))
            \<and> fits_uint8 (uint (bezier_control_point_relative_time md))
         then \<exists>out. GenerateMixGainSubblock md = Inr out
                \<and> obu_animation_values (param_data out) = animation_values md
                \<and> obu_relative_times (param_data out) = relative_times md
         else GenerateMixGainSubblock md = Inl NumericOverflow"
proof (cases "fits_int16 (sint (bezier_start_point_value md))")
  case s: True
  then obtain s where s': "Int32ToInt16 (bezier_start_point_value md) = Inr s"
    "sint s = sint (bezier_start_point_value md)"
    using Int32ToInt16_fits by blast
  show ?thesis
  proof (cases "fits_int16 (sint (bezier_end_point_value md))")
    case e: True
    then obtain e where e': "Int32ToInt16 (bezier_end_point_value md) = Inr e"
      "sint e = sint (bezier_end_point_value md)"
      using Int32ToInt16_fits by blast
    show ?thesis
    proof (cases "fits_int16 (sint (bezier_control_point_value md))")
      case c: True
      then obtain c where c': "Int32ToInt16 (bezier_control_point_value md) = Inr c"
        "sint c = sint (bezier_control_point_value md)"
        using Int32ToInt16_fits by blast
      show ?thesis
      proof (cases "fits_uint8 (uint (bezier_control_point_relative_time md))")
        case True
        then obtain t where "Uint32ToUint8 (bezier_control_point_relative_time md) = Inr t"
          "uint t = uint (bezier_control_point_relative_time md)"
          using Uint32ToUint8_fits by blast
        then show ?thesis
          using True s s' e e' c c' assms
          by (simp add: GenerateMixGainSubblock_def animation_values_def relative_times_def
                obu_animation_values_def obu_relative_times_def)
      next
        case False
        then show ?thesis
          using s' e' c' assms by (simp add: GenerateMixGainSubblock_def Uint32ToUint8_overflow)
      qed
    next
      case False
      then show ?thesis
        using s' e' assms by (simp add: GenerateMixGainSubblock_def Int32ToInt16_overflow)
    qed
  next
    case False
    then show ?thesis
      using s' assms by (simp add: GenerateMixGainSubblock_def Int32ToInt16_overflow)
  qed
next
  case False
  then show ?thesis
    using assms by (simp add: GenerateMixGainSubblock_def Int32ToInt16_overflow)
qed

text \<open>
  Claim C5.  \<open>GenerateMixGainSubblock\<close> narrows every point value of the animation it
  reads from 32 to 16 bits, and the relative time of a Bezier animation to 8 bits,
  without loss: when all of them fit, the call succeeds and the values of the OBU are
  the values of the metadata (so \<open>INT16_MIN\<close> and \<open>INT16_MAX\<close> are kept); when one
  does not fit (\<open>INT16_MAX + 1\<close>), the call fails with NumericOverflow; an unrecognised
  animation type fails.
\<close>

theorem GenerateMixGainSubblock_narrowing:
  "(animation_type md \<noteq> ANIMATE_INVALID
      \<and> list_all fits_int16 (animation_values md) \<and> list_all fits_uint8 (relative_times md)
    \<longrightarrow> (\<exists>out. GenerateMixGainSubblock md = Inr out
           \<and> obu_animation_values (param_data out) = animation_values md
           \<and> obu_relative_times (param_data out) = relative_times md))
   \<and> (animation_type md \<noteq> ANIMATE_INVALID
      \<and> \<not> (list_all fits_int16 (animation_values md) \<and> list_all fits_uint8 (relative_times md))
    \<longrightarrow> GenerateMixGainSubblock md = Inl NumericOverflow)
   \<and> (animation_type md = ANIMATE_INVALID
    \<longrightarrow> GenerateMixGainSubblock md = Inl InvalidArgument)"
proof (cases "animation_type md")
  case ANIMATE_INVALID
  then show ?thesis by (simp add: GenerateMixGainSubblock_def)
next
  case ANIMATE_STEP
  then show ?thesis
    using GenerateMixGainSubblock_step[OF ANIMATE_STEP]
    by (simp add: animation_values_def relative_times_def split: if_splits)
next
  case ANIMATE_LINEAR
  then show ?thesis
    using GenerateMixGainSubblock_linear[OF ANIMATE_LINEAR]
    by (simp add: animation_values_def relative_times_def split: if_splits)
next
  case ANIMATE_BEZIER
  then show ?thesis
    using GenerateMixGainSubblock_bezier[OF ANIMATE_BEZIER]
    by (simp add: animation_values_def relative_times_def split: if_splits)
qed

theorem GenerateMixGainSubblock_narrowing_witness:
  "(\<exists>out. GenerateMixGainSubblock
       \<lparr>animation_type = ANIMATE_LINEAR, step_start_point_value = 0,
        linear_start_point_value = - 32768, linear_end_point_value = 32767,
        bezier_start_point_value = 0, bezier_end_point_value = 0,
        bezier_control_point_value = 0, bezier_control_point_relative_time = 0\<rparr> = Inr out
     \<and> obu_animation_values (param_data out) = [- 32768, 32767])
   \<and> GenerateMixGainSubblock
       \<lparr>animation_type = ANIMATE_STEP, step_start_point_value = 32768,
        linear_start_point_value = 0, linear_end_point_value = 0,
        bezier_start_point_value = 0, bezier_end_point_value = 0,
        bezier_control_point_value = 0, bezier_control_point_relative_time = 0\<rparr> = Inl NumericOverflow
   \<and> GenerateMixGainSubblock
       \<lparr>animation_type = ANIMATE_INVALID, step_start_point_value = 0,
        linear_start_point_value = 0, linear_end_point_value = 0,
        bezier_start_point_value = 0, bezier_end_point_value = 0,
        bezier_control_point_value = 0, bezier_control_point_relative_time = 0\<rparr> = Inl InvalidArgument"
  using GenerateMixGainSubblock_narrowing
          [of "\<lparr>animation_type = ANIMATE_LINEAR, step_start_point_value = 0,
        linear_start_point_value = - 32768, linear_end_point_value = 32767,
        bezier_start_point_value = 0, bezier_end_point_value = 0,
        bezier_control_point_value = 0, bezier_control_point_relative_time = 0\<rparr>"]
        GenerateMixGainSubblock_narrowing
          [of "\<lparr>animation_type = ANIMATE_STEP, step_start_point_value = 32768,
        linear_start_point_value = 0, linear_end_point_value = 0,
        bezier_start_point_value = 0, bezier_end_point_value = 0,
        bezier_control_point_value = 0, bezier_control_point_relative_time = 0\<rparr>"]
        GenerateMixGainSubblock_narrowing
          [of "\<lparr>animation_type = ANIMATE_INVALID, step_start_point_value = 0,
        linear_start_point_value = 0, linear_end_point_value = 0,
        bezier_start_point_value = 0, bezier_end_point_value = 0,
        bezier_control_point_value = 0, bezier_control_point_relative_time = 0\<rparr>"]
  by (auto simp: animation_values_def relative_times_def fits_int16_def fits_uint8_def)


subsection \<open>Initialize on a registered id\<close>







subsection \<open>Demixing subblocks\<close>

text \<open>
  Claim C4.  A demixing parameter block is meant to have one subblock, and the message of
  the error says so, but the test of the source is \<^verbatim>\<open>subblock_index > 1\<close>: for the
  second subblock (index 1) of a demixing parameter, when the block has a second subblock
  and the payload can be copied, \<open>GenerateParameterBlockSubblock\<close> returns OK and has
  stored the copied payload in that subblock.
\<close>

theorem GenerateParameterBlockSubblock_demixing_second:
  assumes "param_definition_type per_id_metadata = kParameterDefinitionDemixing"
    and "CopyDemixingInfoParameterData ext (demixing_info_parameter_data metadata_subblock)
           = Inr pdata"
    and "1 < length (obu_subblocks ob)"
  shows "GenerateParameterBlockSubblock ext override frames decoded_frames per_id_metadata
           False 1 metadata_subblock ob
         = Inr (set_param_data ob 1 (DemixingData pdata))"
  using assms by (simp add: GenerateParameterBlockSubblock_def)

text \<open>
  An OBU with two subblocks, the first already holding the payload 2: the call for the
  second subblock stores the payload 3 there.
\<close>

theorem GenerateParameterBlockSubblock_demixing_second_witness:
  "GenerateParameterBlockSubblock example_externals False None None
     (zero_PerIdParameterMetadata\<lparr>param_definition_type := kParameterDefinitionDemixing\<rparr>)
     False 1 (example_subblock 3)
     \<lparr>obu_subblocks = [ParameterSubblock 0 (DemixingData 2), ParameterSubblock 0 NoParamData],
      obu_rest = ()\<rparr>
   = Inr \<lparr>obu_subblocks =
            [ParameterSubblock 0 (DemixingData 2), ParameterSubblock 0 (DemixingData 3)],
          obu_rest = ()\<rparr>"
  using GenerateParameterBlockSubblock_demixing_second
          [of "zero_PerIdParameterMetadata
                 \<lparr>param_definition_type := kParameterDefinitionDemixing\<rparr>"
              example_externals "example_subblock 3" 3
              "\<lparr>obu_subblocks =
                  [ParameterSubblock 0 (DemixingData 2), ParameterSubblock 0 NoParamData],
                obu_rest = ()\<rparr>"
              False None None]
  by (simp add: example_externals_def example_subblock_def zero_PerIdParameterMetadata_def
        set_param_data_def)

subsection \<open>The queue after a batch\<close>





subsection \<open>Recon gain elements\<close>

lemma user_step_length:
  "length (fst (foldl user_recon_gain_step st entries)) = length (fst st)"
  by (induction entries rule: rev_induct) (simp_all add: user_recon_gain_step_def)



















end
